theory Spec2Isabelle
  imports Main "HOL-Library.Word"
begin

section \<open>Credential hasher (src/utils/password.ts)\<close>

text \<open>
  The hasher calls three things it does not define: Node's \<open>scrypt\<close>, Node's
  \<open>randomBytes\<close> and the configured pepper (\<open>serverEnv.pepper\<close>). They are the
  fields of \<open>platform\<close>: the derivation function is a parameter, the pepper a string, and
  the random source a tape of bytes from which \<open>randomBytes n\<close> reads the first \<open>n\<close>.
  JavaScript strings are lists of characters here; nothing below depends on how a
  character is encoded.
\<close>

type_synonym byte = "8 word"

record platform =
  scrypt :: "string \<Rightarrow> string \<Rightarrow> nat \<Rightarrow> byte list"
  pepper :: string
  entropy :: "nat \<Rightarrow> byte"

definition randomBytes :: "platform \<Rightarrow> nat \<Rightarrow> byte list" where
  "randomBytes pf n = map (entropy pf) [0..<n]"

text \<open>\<open>Buffer.toString('hex')\<close>: two lower-case hexadecimal digits per byte.\<close>

definition hexDigit :: "nat \<Rightarrow> char" where
  "hexDigit n = ''0123456789abcdef'' ! n"

fun toHex :: "byte list \<Rightarrow> string" where
  "toHex [] = []"
| "toHex (b # bs) = hexDigit (unat b div 16) # hexDigit (unat b mod 16) # toHex bs"

text \<open>\<open>String.prototype.split\<close> with a one-character separator.\<close>

fun js_split :: "char \<Rightarrow> string \<Rightarrow> string list" where
  "js_split d [] = [[]]"
| "js_split d (c # cs) =
     (if c = d then [] # js_split d cs
      else (case js_split d cs of [] \<Rightarrow> [[c]] | w # ws \<Rightarrow> (c # w) # ws))"

text \<open>
  Errors are values. \<open>Raw\<close> carries an error of the store client as thrown
  (\<open>error.code\<close>, \<open>error.meta?.target\<close>); \<open>NotFound\<close> has an optional message
  (\<open>new NotFound()\<close> in app.ts, \<open>new NotFound('User not found')\<close> in the models).
\<close>

record prisma_meta =
  target :: "string list option"

record prisma_error =
  code :: "string option"
  meta :: "prisma_meta option"

datatype error =
    NotFound "string option"
  | BadRequestError string
  | TypeError string
  | Raw prisma_error

definition toHash :: "platform \<Rightarrow> string \<Rightarrow> string" where
  "toHash pf password =
     (let salt = toHex (randomBytes pf 8);
          buf = scrypt pf (password @ pepper pf) salt 64
      in toHex buf @ ''.'' @ salt)"

text \<open>
  \<open>const [hashedPassword, salt] = storedPassword.split('.')\<close>: the first two pieces; with
  no second piece \<open>salt\<close> is \<open>undefined\<close> and \<open>scrypt\<close> rejects it with a TypeError.
\<close>

definition compare :: "platform \<Rightarrow> string \<Rightarrow> string \<Rightarrow> error + bool" where
  "compare pf storedPassword suppliedPassword =
     (case js_split CHR ''.'' storedPassword of
        hashedPassword # salt # _ \<Rightarrow>
          Inr (hashedPassword = toHex (scrypt pf (suppliedPassword @ pepper pf) salt 64))
      | _ \<Rightarrow> Inl (TypeError ''salt must be of type string''))"

definition is_hex :: "char \<Rightarrow> bool" where
  "is_hex c = (c \<in> set ''0123456789abcdef'')"

section \<open>Data model (prisma/schema.prisma)\<close>

text \<open>
  \<open>User\<close> is \<open>CreateUserData\<close> plus the columns the store fills in (\<open>id\<close>, \<open>createdAt\<close>);
  \<open>UpdateUserData\<close> has every field optional. \<open>Meal\<close> likewise. Of a meal plan only the
  id matters here (the foreign key of \<open>Meal.planId\<close>).
\<close>

record CreateUserData =
  email :: string
  name :: string
  phone :: string
  password :: string

record User = CreateUserData +
  user_id :: string
  createdAt :: nat

record UpdateUserData =
  upd_email :: "string option"
  upd_name :: "string option"
  upd_phone :: "string option"
  upd_password :: "string option"

record CreateMealData =
  meal_name :: string
  calories :: int
  carbs :: int
  protein :: int
  fat :: int
  planId :: string

record Meal = CreateMealData +
  meal_id :: string
  meal_createdAt :: nat

record UpdateMealData =
  upd_meal_name :: "string option"
  upd_calories :: "int option"
  upd_carbs :: "int option"
  upd_protein :: "int option"
  upd_fat :: "int option"

record db =
  users :: "User list"
  meals :: "Meal list"
  mealPlans :: "string list"

section \<open>The store client\<close>

text \<open>
  The models reach the store through the Prisma client only. \<open>prisma\<close> is that client as
  the models use it: one function per call, from the arguments and the store's state to
  the row(s) and the new state, or to the error the call rejects with. The models are
  written against any such client (the tests pass a mock); \<open>pg\<close> below is the client of
  the schema.
\<close>

datatype user_where = ById string | ByEmail string | ByPhone string

record prisma =
  user_create :: "CreateUserData \<Rightarrow> db \<Rightarrow> prisma_error + User \<times> db"
  user_findUnique :: "user_where \<Rightarrow> db \<Rightarrow> prisma_error + User option"
  user_findMany :: "db \<Rightarrow> prisma_error + User list"
  user_update :: "string \<Rightarrow> UpdateUserData \<Rightarrow> db \<Rightarrow> prisma_error + User \<times> db"
  user_delete :: "string \<Rightarrow> db \<Rightarrow> prisma_error + User \<times> db"
  meal_create :: "CreateMealData \<Rightarrow> db \<Rightarrow> prisma_error + Meal \<times> db"
  meal_findUnique :: "string \<Rightarrow> db \<Rightarrow> prisma_error + Meal option"
  meal_update :: "string \<Rightarrow> UpdateMealData \<Rightarrow> db \<Rightarrow> prisma_error + Meal \<times> db"
  meal_delete :: "string \<Rightarrow> db \<Rightarrow> prisma_error + Meal \<times> db"

text \<open>
  The client of the schema: \<open>User.id\<close> and \<open>Meal.id\<close> are primary keys, \<open>User.email\<close> and
  \<open>User.phone\<close> are unique, \<open>Meal.planId\<close> references a meal plan. A violated unique
  constraint rejects with code P2002 and the constraint's field in \<open>meta.target\<close>, a
  missing row to update or delete with P2025, a violated foreign key with P2003. The
  nutritional columns are INTEGER: a value that does not fit 32 signed bits is rejected
  with P2020 before any row is looked at. The defaults \<open>uuid()\<close> and \<open>now()\<close> of a new row
  are inputs.
\<close>

record defaults =
  uuid :: string
  now :: nat

definition P2002 :: "string \<Rightarrow> prisma_error" where
  "P2002 field = \<lparr>code = Some ''P2002'', meta = Some \<lparr>target = Some [field]\<rparr>\<rparr>"

definition P2025 :: prisma_error where
  "P2025 = \<lparr>code = Some ''P2025'', meta = Some \<lparr>target = None\<rparr>\<rparr>"

definition P2003 :: prisma_error where
  "P2003 = \<lparr>code = Some ''P2003'', meta = Some \<lparr>target = None\<rparr>\<rparr>"

definition P2020 :: prisma_error where
  "P2020 = \<lparr>code = Some ''P2020'', meta = Some \<lparr>target = None\<rparr>\<rparr>"

definition int4 :: "int \<Rightarrow> bool" where
  "int4 v = (- 2147483648 \<le> v \<and> v \<le> 2147483647)"

definition pg_user_create :: "defaults \<Rightarrow> CreateUserData \<Rightarrow> db \<Rightarrow> prisma_error + User \<times> db" where
  "pg_user_create dflt d s =
     (let row = \<lparr>email = email d, name = name d, phone = phone d, password = password d,
                 user_id = uuid dflt, createdAt = now dflt\<rparr>
      in if \<exists>u \<in> set (users s). user_id u = user_id row then Inl (P2002 ''id'')
         else if \<exists>u \<in> set (users s). email u = email row then Inl (P2002 ''email'')
         else if \<exists>u \<in> set (users s). phone u = phone row then Inl (P2002 ''phone'')
         else Inr (row, s\<lparr>users := users s @ [row]\<rparr>))"

fun pg_user_findUnique :: "user_where \<Rightarrow> db \<Rightarrow> prisma_error + User option" where
  "pg_user_findUnique (ById i) s = Inr (find (\<lambda>u. user_id u = i) (users s))"
| "pg_user_findUnique (ByEmail e) s = Inr (find (\<lambda>u. email u = e) (users s))"
| "pg_user_findUnique (ByPhone p) s = Inr (find (\<lambda>u. phone u = p) (users s))"

definition pg_user_findMany :: "db \<Rightarrow> prisma_error + User list" where
  "pg_user_findMany s = Inr (users s)"

definition set_user :: "UpdateUserData \<Rightarrow> User \<Rightarrow> User" where
  "set_user d u =
     u\<lparr>email := (case upd_email d of Some v \<Rightarrow> v | None \<Rightarrow> email u),
       name := (case upd_name d of Some v \<Rightarrow> v | None \<Rightarrow> name u),
       phone := (case upd_phone d of Some v \<Rightarrow> v | None \<Rightarrow> phone u),
       password := (case upd_password d of Some v \<Rightarrow> v | None \<Rightarrow> password u)\<rparr>"

definition pg_user_update :: "string \<Rightarrow> UpdateUserData \<Rightarrow> db \<Rightarrow> prisma_error + User \<times> db" where
  "pg_user_update i d s =
     (case find (\<lambda>u. user_id u = i) (users s) of
        None \<Rightarrow> Inl P2025
      | Some u \<Rightarrow>
          (let row = set_user d u;
               others = filter (\<lambda>v. user_id v \<noteq> i) (users s)
           in if \<exists>v \<in> set others. email v = email row then Inl (P2002 ''email'')
              else if \<exists>v \<in> set others. phone v = phone row then Inl (P2002 ''phone'')
              else Inr (row, s\<lparr>users := map (\<lambda>v. if user_id v = i then row else v) (users s)\<rparr>)))"

definition pg_user_delete :: "string \<Rightarrow> db \<Rightarrow> prisma_error + User \<times> db" where
  "pg_user_delete i s =
     (case find (\<lambda>u. user_id u = i) (users s) of
        None \<Rightarrow> Inl P2025
      | Some u \<Rightarrow> Inr (u, s\<lparr>users := filter (\<lambda>v. user_id v \<noteq> i) (users s)\<rparr>))"

definition pg_meal_create :: "defaults \<Rightarrow> CreateMealData \<Rightarrow> db \<Rightarrow> prisma_error + Meal \<times> db" where
  "pg_meal_create dflt d s =
     (let row = \<lparr>meal_name = meal_name d, calories = calories d, carbs = carbs d,
                 protein = protein d, fat = fat d, planId = planId d,
                 meal_id = uuid dflt, meal_createdAt = now dflt\<rparr>
      in if \<not> (int4 (calories d) \<and> int4 (carbs d) \<and> int4 (protein d) \<and> int4 (fat d))
         then Inl P2020
         else if \<exists>m \<in> set (meals s). meal_id m = meal_id row then Inl (P2002 ''id'')
         else if planId row \<notin> set (mealPlans s) then Inl P2003
         else Inr (row, s\<lparr>meals := meals s @ [row]\<rparr>))"

definition pg_meal_findUnique :: "string \<Rightarrow> db \<Rightarrow> prisma_error + Meal option" where
  "pg_meal_findUnique i s = Inr (find (\<lambda>m. meal_id m = i) (meals s))"

definition set_meal :: "UpdateMealData \<Rightarrow> Meal \<Rightarrow> Meal" where
  "set_meal d m =
     m\<lparr>meal_name := (case upd_meal_name d of Some v \<Rightarrow> v | None \<Rightarrow> meal_name m),
       calories := (case upd_calories d of Some v \<Rightarrow> v | None \<Rightarrow> calories m),
       carbs := (case upd_carbs d of Some v \<Rightarrow> v | None \<Rightarrow> carbs m),
       protein := (case upd_protein d of Some v \<Rightarrow> v | None \<Rightarrow> protein m),
       fat := (case upd_fat d of Some v \<Rightarrow> v | None \<Rightarrow> fat m)\<rparr>"

definition pg_meal_update :: "string \<Rightarrow> UpdateMealData \<Rightarrow> db \<Rightarrow> prisma_error + Meal \<times> db" where
  "pg_meal_update i d s =
     (if \<not> (list_all (\<lambda>v. case v of None \<Rightarrow> True | Some n \<Rightarrow> int4 n)
                [upd_calories d, upd_carbs d, upd_protein d, upd_fat d])
      then Inl P2020
      else case find (\<lambda>m. meal_id m = i) (meals s) of
             None \<Rightarrow> Inl P2025
           | Some m \<Rightarrow>
               (let row = set_meal d m
                in Inr (row, s\<lparr>meals := map (\<lambda>v. if meal_id v = i then row else v) (meals s)\<rparr>)))"

definition pg_meal_delete :: "string \<Rightarrow> db \<Rightarrow> prisma_error + Meal \<times> db" where
  "pg_meal_delete i s =
     (case find (\<lambda>m. meal_id m = i) (meals s) of
        None \<Rightarrow> Inl P2025
      | Some m \<Rightarrow> Inr (m, s\<lparr>meals := filter (\<lambda>v. meal_id v \<noteq> i) (meals s)\<rparr>))"

definition pg :: "defaults \<Rightarrow> prisma" where
  "pg dflt =
     \<lparr>user_create = pg_user_create dflt,
      user_findUnique = pg_user_findUnique,
      user_findMany = pg_user_findMany,
      user_update = pg_user_update,
      user_delete = pg_user_delete,
      meal_create = pg_meal_create dflt,
      meal_findUnique = pg_meal_findUnique,
      meal_update = pg_meal_update,
      meal_delete = pg_meal_delete\<rparr>"

section \<open>UserModel (src/models/user-model.ts)\<close>

text \<open>
  \<open>handlePrismaError\<close> either throws (\<open>Some\<close> of what it throws) or returns (\<open>None\<close>).
  \<open>error.meta?.target[0] || 'Field'\<close>: without \<open>meta\<close> the chain is \<open>undefined\<close>; with
  \<open>meta\<close> but no \<open>target\<close> the index throws a TypeError; an empty list or an empty first
  name is falsy.
\<close>

definition UserModel_handlePrismaError :: "prisma_error \<Rightarrow> error option" where
  "UserModel_handlePrismaError err =
     (if code err = Some ''P2025'' then Some (NotFound (Some ''User not found''))
      else if code err = Some ''P2002'' then
        (case meta err of
           None \<Rightarrow> Some (BadRequestError (''Field'' @ '' is already in use''))
         | Some m \<Rightarrow>
             (case target m of
                None \<Rightarrow> Some (TypeError ''Cannot read properties of undefined'')
              | Some [] \<Rightarrow> Some (BadRequestError (''Field'' @ '' is already in use''))
              | Some (f # _) \<Rightarrow>
                  Some (BadRequestError ((if f = [] then ''Field'' else f) @ '' is already in use''))))
      else None)"

text \<open>The catch block of create, update and delete: \<open>handlePrismaError(error); throw error\<close>.\<close>

definition UserModel_catch :: "prisma_error \<Rightarrow> error" where
  "UserModel_catch err =
     (case UserModel_handlePrismaError err of Some e \<Rightarrow> e | None \<Rightarrow> Raw err)"

definition UserModel_create :: "prisma \<Rightarrow> platform \<Rightarrow> CreateUserData \<Rightarrow> db \<Rightarrow> error + User \<times> db" where
  "UserModel_create client pf userData s =
     (let hashedPassword = toHash pf (password userData)
      in case user_create client (userData\<lparr>password := hashedPassword\<rparr>) s of
           Inl err \<Rightarrow> Inl (UserModel_catch err)
         | Inr r \<Rightarrow> Inr r)"

definition UserModel_findById :: "prisma \<Rightarrow> string \<Rightarrow> db \<Rightarrow> error + User" where
  "UserModel_findById client i s =
     (case user_findUnique client (ById i) s of
        Inl err \<Rightarrow> Inl (Raw err)
      | Inr None \<Rightarrow> Inl (NotFound (Some ''User not found''))
      | Inr (Some user) \<Rightarrow> Inr user)"

definition UserModel_findByEmail :: "prisma \<Rightarrow> string \<Rightarrow> db \<Rightarrow> error + User option" where
  "UserModel_findByEmail client e s =
     (case user_findUnique client (ByEmail e) s of
        Inl err \<Rightarrow> Inl (Raw err)
      | Inr r \<Rightarrow> Inr r)"

definition UserModel_findByPhone :: "prisma \<Rightarrow> string \<Rightarrow> db \<Rightarrow> error + User option" where
  "UserModel_findByPhone client p s =
     (case user_findUnique client (ByPhone p) s of
        Inl err \<Rightarrow> Inl (Raw err)
      | Inr r \<Rightarrow> Inr r)"

text \<open>\<open>if (updateData.password)\<close>: an absent field and the empty string are both falsy.\<close>

fun truthy :: "string option \<Rightarrow> bool" where
  "truthy None = False"
| "truthy (Some v) = (v \<noteq> [])"

definition UserModel_update ::
  "prisma \<Rightarrow> platform \<Rightarrow> string \<Rightarrow> UpdateUserData \<Rightarrow> db \<Rightarrow> error + User \<times> db" where
  "UserModel_update client pf i d s =
     (let updateData =
            (if truthy (upd_password d)
             then d\<lparr>upd_password := map_option (toHash pf) (upd_password d)\<rparr>
             else d)
      in case user_update client i updateData s of
           Inl err \<Rightarrow> Inl (UserModel_catch err)
         | Inr r \<Rightarrow> Inr r)"

definition UserModel_delete :: "prisma \<Rightarrow> string \<Rightarrow> db \<Rightarrow> error + db" where
  "UserModel_delete client i s =
     (case user_delete client i s of
        Inl err \<Rightarrow> Inl (UserModel_catch err)
      | Inr (_, s') \<Rightarrow> Inr s')"


text \<open>
  The class ends here: it defines no \<open>login\<close>, although the controller calls
  \<open>UserModel.login\<close> and the tests of the model and of the controller exercise it
  (the controller's tests put a mock in its place). The property is a binding that may be
  absent; in the application it is \<open>undefined\<close>.
\<close>

type_synonym login_fn = "string \<Rightarrow> string \<Rightarrow> db \<Rightarrow> error + User"

definition UserModel_login :: "login_fn option" where
  "UserModel_login = None"

section \<open>MealModel (src/models/meal-model.ts)\<close>

definition MealModel_handlePrismaError :: "prisma_error \<Rightarrow> error option" where
  "MealModel_handlePrismaError err =
     (if code err = Some ''P2025'' then Some (NotFound (Some ''Meal not found'')) else None)"

definition MealModel_catch :: "prisma_error \<Rightarrow> error" where
  "MealModel_catch err =
     (case MealModel_handlePrismaError err of Some e \<Rightarrow> e | None \<Rightarrow> Raw err)"

definition MealModel_create :: "prisma \<Rightarrow> CreateMealData \<Rightarrow> db \<Rightarrow> error + Meal \<times> db" where
  "MealModel_create client mealData s =
     (case meal_create client mealData s of
        Inl err \<Rightarrow> Inl (MealModel_catch err)
      | Inr r \<Rightarrow> Inr r)"

definition MealModel_findById :: "prisma \<Rightarrow> string \<Rightarrow> db \<Rightarrow> error + Meal" where
  "MealModel_findById client i s =
     (case meal_findUnique client i s of
        Inl err \<Rightarrow> Inl (Raw err)
      | Inr None \<Rightarrow> Inl (NotFound (Some ''Meal not found''))
      | Inr (Some meal) \<Rightarrow> Inr meal)"

definition MealModel_updateById :: "prisma \<Rightarrow> string \<Rightarrow> UpdateMealData \<Rightarrow> db \<Rightarrow> error + Meal \<times> db" where
  "MealModel_updateById client i mealData s =
     (case meal_update client i mealData s of
        Inl err \<Rightarrow> Inl (MealModel_catch err)
      | Inr r \<Rightarrow> Inr r)"

definition MealModel_deleteById :: "prisma \<Rightarrow> string \<Rightarrow> db \<Rightarrow> error + db" where
  "MealModel_deleteById client i s =
     (case meal_delete client i s of
        Inl err \<Rightarrow> Inl (MealModel_catch err)
      | Inr (_, s') \<Rightarrow> Inr s')"

section \<open>UserController (controllers/user-controller.ts)\<close>

text \<open>
  A handler gets the validated request and answers with a status and a body, or throws.
  A user row is the JavaScript object of its six columns;
  \<open>const { password, ...rest } = user\<close> is that object without the key.
\<close>

datatype jsval = JString string | JDate nat

type_synonym obj = "(string \<times> jsval) list"

datatype payload = SendObj obj | SendArr "obj list" | SendNothing

record response =
  status :: nat
  body :: payload

record LoginData =
  login_email :: string
  login_password :: string

definition user_obj :: "User \<Rightarrow> obj" where
  "user_obj u =
     [(''id'', JString (user_id u)), (''email'', JString (email u)),
      (''name'', JString (name u)), (''phone'', JString (phone u)),
      (''password'', JString (password u)), (''createdAt'', JDate (createdAt u))]"

definition rest_without :: "string \<Rightarrow> obj \<Rightarrow> obj" where
  "rest_without k ob = filter (\<lambda>kv. fst kv \<noteq> k) ob"

definition UserController_register ::
  "prisma \<Rightarrow> platform \<Rightarrow> CreateUserData \<Rightarrow> db \<Rightarrow> error + response \<times> db" where
  "UserController_register client pf reqBody s =
     (case UserModel_findByEmail client (email reqBody) s of
        Inl err \<Rightarrow> Inl err
      | Inr (Some existingUser) \<Rightarrow> Inl (BadRequestError ''Email already in use'')
      | Inr None \<Rightarrow>
          (case UserModel_create client pf
                  \<lparr>email = email reqBody, name = name reqBody, phone = phone reqBody,
                   password = password reqBody\<rparr> s of
             Inl err \<Rightarrow> Inl err
           | Inr (user, s') \<Rightarrow>
               Inr (\<lparr>status = 201, body = SendObj (rest_without ''password'' (user_obj user))\<rparr>, s')))"

text \<open>
  \<open>await UserModel.login(email, password)\<close>: the call of whatever \<open>UserModel.login\<close> is
  bound to; calling \<open>undefined\<close> throws a TypeError, and the lines after it do not run.
\<close>

definition UserController_login ::
  "login_fn option \<Rightarrow> LoginData \<Rightarrow> db \<Rightarrow> error + response \<times> db" where
  "UserController_login login reqBody s =
     (case login of
        None \<Rightarrow> Inl (TypeError ''UserModel.login is not a function'')
      | Some f \<Rightarrow>
          (case f (login_email reqBody) (login_password reqBody) s of
             Inl err \<Rightarrow> Inl err
           | Inr user \<Rightarrow>
               Inr (\<lparr>status = 200,
                     body = SendObj (rest_without ''password'' (user_obj user))\<rparr>, s)))"




definition UserController_delete :: "prisma \<Rightarrow> string \<Rightarrow> db \<Rightarrow> error + response \<times> db" where
  "UserController_delete client i s =
     (case UserModel_findById client i s of
        Inl err \<Rightarrow> Inl err
      | Inr _ \<Rightarrow>
          (case UserModel_delete client i s of
             Inl err \<Rightarrow> Inl err
           | Inr s' \<Rightarrow> Inr (\<lparr>status = 204, body = SendNothing\<rparr>, s')))"


section \<open>Routes (app.ts, routes/index-route.ts, routes/APIs/user-route.ts)\<close>

text \<open>
  A request's path is the list of its segments (\<open>/api/v1/users/login\<close> is
  \<open>[api, v1, users, login]\<close>). A router answers with the handler chain that takes the
  request, or with nothing, and then the next layer of the application is tried; the last
  layer of \<open>app\<close> passes \<open>new NotFound()\<close> to the error handler. Segments are compared
  as written (Express ignores case by default; take the path in lower case).
\<close>

datatype verb = GET | POST | PUT | DELETE

datatype endpoint =
    Healthz
  | Register
  | GetAll
  | GetById string
  | Update string
  | Delete string

fun userRouter :: "verb \<Rightarrow> string list \<Rightarrow> endpoint option" where
  "userRouter POST [] = Some Register"
| "userRouter GET [] = Some GetAll"
| "userRouter GET [i] = Some (GetById i)"
| "userRouter PUT [i] = Some (Update i)"
| "userRouter DELETE [i] = Some (Delete i)"
| "userRouter _ _ = None"

fun indexRouter :: "verb \<Rightarrow> string list \<Rightarrow> endpoint option" where
  "indexRouter m (seg # rest) = (if seg = ''users'' then userRouter m rest else None)"
| "indexRouter m [] = None"

fun api_v1 :: "verb \<Rightarrow> string list \<Rightarrow> endpoint option" where
  "api_v1 m (a # b # rest) = (if a = ''api'' \<and> b = ''v1'' then indexRouter m rest else None)"
| "api_v1 m _ = None"

definition app :: "verb \<Rightarrow> string list \<Rightarrow> error + endpoint" where
  "app m path =
     (if m = GET \<and> path = [''healthz''] then Inr Healthz
      else case api_v1 m path of
             Some e \<Rightarrow> Inr e
           | None \<Rightarrow> Inl (NotFound None))"

text \<open>
  Modelled from the spec: the error classes other than NotAuthenticatedError and the
  error handler are not among the source files. Section 7: a NotFound answers 404, a
  BadRequestError 400, and anything unrecognised 500.
\<close>

fun statusCode :: "error \<Rightarrow> nat" where
  "statusCode (NotFound _) = 404"
| "statusCode (BadRequestError _) = 400"
| "statusCode _ = 500"

section \<open>Test data\<close>

text \<open>
  The rows and payloads of the repository's tests (user-model.test.ts,
  meal-model.test.ts), for evaluating the models on concrete inputs. The tests mock the
  hasher; \<open>stub_platform\<close> stands in for Node here: a derivation that returns the
  requested number of bytes, counting up from the length of its input.
\<close>

definition mockUser :: User where
  "mockUser =
     \<lparr>email = ''test@example.com'', name = ''Test User'', phone = ''123-456-7890'',
      password = ''hashedPassword.salt'',
      user_id = ''123e4567-e89b-12d3-a456-426614174000'', createdAt = 0\<rparr>"

definition mockCreateUserData :: CreateUserData where
  "mockCreateUserData =
     \<lparr>email = ''test@example.com'', name = ''Test User'', phone = ''123-456-7890'',
      password = ''password123''\<rparr>"

definition mockMeal :: Meal where
  "mockMeal =
     \<lparr>meal_name = ''Chicken Salad'', calories = 350, carbs = 20, protein = 30, fat = 15,
      planId = ''plan123'',
      meal_id = ''123e4567-e89b-12d3-a456-426614174001'', meal_createdAt = 0\<rparr>"

definition mockCreateMealData :: CreateMealData where
  "mockCreateMealData =
     \<lparr>meal_name = ''Chicken Salad'', calories = 350, carbs = 20, protein = 30, fat = 15,
      planId = ''plan123''\<rparr>"

definition mockDb :: db where
  "mockDb = \<lparr>users = [mockUser], meals = [mockMeal], mealPlans = [''plan123'']\<rparr>"

definition emptyUpdate :: UpdateUserData where
  "emptyUpdate = \<lparr>upd_email = None, upd_name = None, upd_phone = None, upd_password = None\<rparr>"

definition stub_platform :: platform where
  "stub_platform =
     \<lparr>scrypt = (\<lambda>pw st n. map (\<lambda>i. of_nat (length pw + i)) [0..<n]),
      pepper = ''pepper'',
      entropy = (\<lambda>i. of_nat (7 * i + 3))\<rparr>"

definition freshDefaults :: defaults where
  "freshDefaults = \<lparr>uuid = ''223e4567-e89b-12d3-a456-426614174000'', now = 1\<rparr>"


section \<open>Hex encoding and splitting\<close>

lemma hexDigit_is_hex: "n < 16 \<Longrightarrow> is_hex (hexDigit n)"
  unfolding hexDigit_def is_hex_def by (rule nth_mem) simp

lemma hexDigit_inj: "m < 16 \<Longrightarrow> n < 16 \<Longrightarrow> hexDigit m = hexDigit n \<Longrightarrow> m = n"
proof -
  have d: "distinct ''0123456789abcdef''" by simp
  show "m < 16 \<Longrightarrow> n < 16 \<Longrightarrow> hexDigit m = hexDigit n \<Longrightarrow> m = n"
    unfolding hexDigit_def using d by (simp add: nth_eq_iff_index_eq)
qed

lemma unat_byte_div: "unat (b::byte) div 16 < 16"
  using unsigned_less [of b, where 'a = nat] by (simp add: less_mult_imp_div_less)

lemma toHex_inj: "toHex xs = toHex ys \<Longrightarrow> xs = ys"
proof (induction xs arbitrary: ys)
  case Nil
  then show ?case by (cases ys) auto
next
  case (Cons x xs)
  then obtain y ys' where ys: "ys = y # ys'" by (cases ys) auto
  from Cons.prems ys have h: "hexDigit (unat x div 16) = hexDigit (unat y div 16)"
    and l: "hexDigit (unat x mod 16) = hexDigit (unat y mod 16)"
    and t: "toHex xs = toHex ys'" by auto
  have "unat x div 16 = unat y div 16"
    using h hexDigit_inj unat_byte_div by blast
  moreover have "unat x mod 16 = unat y mod 16"
    using l hexDigit_inj [of "unat x mod 16" "unat y mod 16"] by simp
  ultimately have "unat x = unat y" by (metis div_mult_mod_eq)
  then have "x = y" by (simp add: word_unat_eq_iff)
  with Cons.IH [OF t] ys show ?case by simp
qed

lemma toHex_is_hex: "c \<in> set (toHex bs) \<Longrightarrow> is_hex c"
  by (induction bs) (auto simp: hexDigit_is_hex unat_byte_div)

lemma length_toHex: "length (toHex bs) = 2 * length bs"
  by (induction bs) auto

lemma dot_not_hex: "\<not> is_hex CHR ''.''"
  by (simp add: is_hex_def)

lemma toHex_no_dot: "CHR ''.'' \<notin> set (toHex bs)"
  using toHex_is_hex dot_not_hex by blast

lemma js_split_nonempty: "js_split d s \<noteq> []"
  by (induction s) (auto split: list.splits)

lemma js_split_no_delim: "d \<notin> set s \<Longrightarrow> js_split d s = [s]"
  by (induction s) auto

lemma js_split_append: "d \<notin> set h \<Longrightarrow> js_split d (h @ d # s) = h # js_split d s"
  by (induction h) auto

lemma js_split_digest:
  "js_split CHR ''.'' (toHex a @ ''.'' @ toHex b) = [toHex a, toHex b]"
  by (simp add: js_split_append js_split_no_delim toHex_no_dot)

lemma compare_toHash:
  "compare pf (toHash pf p) p' =
     Inr (scrypt pf (p @ pepper pf) (toHex (randomBytes pf 8)) 64
          = scrypt pf (p' @ pepper pf) (toHex (randomBytes pf 8)) 64)"
proof -
  have "js_split CHR ''.'' (toHash pf p)
        = [toHex (scrypt pf (p @ pepper pf) (toHex (randomBytes pf 8)) 64),
           toHex (randomBytes pf 8)]"
    unfolding toHash_def Let_def by (rule js_split_digest)
  then show ?thesis
    unfolding compare_def using toHex_inj by auto
qed


lemma finite_byte_lists: "finite {bs :: byte list. length bs = n}"
  using finite_lists_length_eq [of "UNIV :: byte set" n] by simp

section \<open>The credential hasher's round trip\<close>

text \<open>
  C1 (as amended). Verifying a digest against the password it was made from succeeds,
  for every password, pepper, salt and derivation function. Verifying it against any
  other password returns whether the two derivations, under the digest's salt, agree:
  false exactly when the derived bytes differ.
\<close>

theorem C1_compare_toHash:
  "compare pf (toHash pf p) p = Inr True \<and>
   compare pf (toHash pf p) p' =
     Inr (scrypt pf (p @ pepper pf) (toHex (randomBytes pf 8)) 64
          = scrypt pf (p' @ pepper pf) (toHex (randomBytes pf 8)) 64)"
  using compare_toHash [of pf p p] compare_toHash [of pf p p'] by simp

text \<open>
  C1 as stated fails: no derivation function with 64-byte results rejects every other
  password, since there are infinitely many passwords and finitely many results.
\<close>

theorem C1_distinct_passwords_collide:
  "\<not> (\<exists>pf. (\<forall>pw st. length (scrypt pf pw st 64) = 64) \<and>
            (\<forall>p p'. p \<noteq> p' \<longrightarrow> compare pf (toHash pf p) p' = Inr False))"
proof
  assume "\<exists>pf. (\<forall>pw st. length (scrypt pf pw st 64) = 64) \<and>
            (\<forall>p p'. p \<noteq> p' \<longrightarrow> compare pf (toHash pf p) p' = Inr False)"
  then obtain pf where len: "\<And>pw st. length (scrypt pf pw st 64) = 64"
    and rej: "\<And>p p'. p \<noteq> p' \<Longrightarrow> compare pf (toHash pf p) p' = Inr False"
    by blast
  define derive where "derive p = scrypt pf (p @ pepper pf) (toHex (randomBytes pf 8)) 64" for p
  have "inj derive"
  proof (rule injI)
    fix p p' assume eq: "derive p = derive p'"
    show "p = p'"
    proof (rule ccontr)
      assume "p \<noteq> p'"
      from rej [OF this] have "derive p \<noteq> derive p'"
        unfolding derive_def compare_toHash by simp
      with eq show False by simp
    qed
  qed
  moreover have "range derive \<subseteq> {bs. length bs = 64}"
    unfolding derive_def using len by auto
  then have "finite (range derive)"
    using finite_byte_lists [of 64] by (rule finite_subset)
  ultimately have "finite (UNIV :: string set)"
    by (rule finite_imageD [rotated])
  then show False using infinite_UNIV_listI by blast
qed

section \<open>The shape of a digest\<close>

text \<open>
  C10. When the derivation returns the 64 bytes asked for, a digest is 128 hexadecimal
  characters, a dot, and the 16 hexadecimal characters of the 8 salt bytes; the salt has
  no dot, and splitting the digest at the dot gives back exactly the two components.
\<close>

theorem C10_digest_shape:
  assumes "\<And>pw st. length (scrypt pf pw st 64) = 64"
  shows "let st = toHex (randomBytes pf 8);
             h = toHex (scrypt pf (p @ pepper pf) st 64)
         in toHash pf p = h @ ''.'' @ st \<and> length h = 128 \<and> length st = 16 \<and>
            list_all is_hex h \<and> list_all is_hex st \<and> CHR ''.'' \<notin> set st \<and>
            js_split CHR ''.'' (toHash pf p) = [h, st]"
proof -
  have "length (randomBytes pf 8) = 8" by (simp add: randomBytes_def)
  then have "length (toHex (randomBytes pf 8)) = 16" by (simp add: length_toHex)
  moreover have "length (toHex (scrypt pf (p @ pepper pf) (toHex (randomBytes pf 8)) 64)) = 128"
    by (simp add: length_toHex assms)
  moreover have "list_all is_hex (toHex bs)" for bs
    by (simp add: list_all_iff toHex_is_hex)
  moreover have "js_split CHR ''.'' (toHash pf p)
        = [toHex (scrypt pf (p @ pepper pf) (toHex (randomBytes pf 8)) 64),
           toHex (randomBytes pf 8)]"
    unfolding toHash_def Let_def by (rule js_split_digest)
  ultimately show ?thesis
    using toHex_no_dot by (simp add: Let_def toHash_def)
qed

theorem C10_digest_shape_witness:
  "(\<forall>pw st. length (scrypt stub_platform pw st 64) = 64) \<and>
   toHash stub_platform ''password123'' =
     ''1112131415161718191a1b1c1d1e1f202122232425262728292a2b2c2d2e2f303132333435363738393a3b3c3d3e3f404142434445464748494a4b4c4d4e4f50.030a11181f262d34'' \<and>
   (let st = toHex (randomBytes stub_platform 8);
        h = toHex (scrypt stub_platform (''password123'' @ pepper stub_platform) st 64)
    in toHash stub_platform ''password123'' = h @ ''.'' @ st \<and> length h = 128 \<and> length st = 16 \<and>
       list_all is_hex h \<and> list_all is_hex st \<and> CHR ''.'' \<notin> set st \<and>
       js_split CHR ''.'' (toHash stub_platform ''password123'') = [h, st])"
proof (intro conjI)
  show "\<forall>pw st. length (scrypt stub_platform pw st 64) = 64"
    by (simp add: stub_platform_def)
  show "toHash stub_platform ''password123'' =
     ''1112131415161718191a1b1c1d1e1f202122232425262728292a2b2c2d2e2f303132333435363738393a3b3c3d3e3f404142434445464748494a4b4c4d4e4f50.030a11181f262d34''"
    by code_simp
  show "let st = toHex (randomBytes stub_platform 8);
        h = toHex (scrypt stub_platform (''password123'' @ pepper stub_platform) st 64)
    in toHash stub_platform ''password123'' = h @ ''.'' @ st \<and> length h = 128 \<and> length st = 16 \<and>
       list_all is_hex h \<and> list_all is_hex st \<and> CHR ''.'' \<notin> set st \<and>
       js_split CHR ''.'' (toHash stub_platform ''password123'') = [h, st]"
    by (rule C10_digest_shape) (simp add: stub_platform_def)
qed

section \<open>The login route\<close>

text \<open>
  C4. The routers register no login route: a POST to /api/v1/users/login matches nothing
  and reaches the last layer, which answers with NotFound (404).
\<close>

theorem C4_login_route_unmatched:
  "app POST [''api'', ''v1'', ''users'', ''login''] = Inl (NotFound None) \<and>
   statusCode (NotFound None) = 404"
  by (simp add: app_def)

section \<open>Responses carry no password\<close>











section \<open>Login failures\<close>

text \<open>
  C3. The class UserModel defines no login, so the handler's call of it throws the same
  TypeError for every email and password: when no user has the email, and when one has
  and the password is wrong. The error is not the BadRequestError 'Invalid credentials'
  that the model's tests expect.
\<close>

theorem C3_login_throws_type_error:
  "UserController_login UserModel_login \<lparr>login_email = e, login_password = p\<rparr> s
     = Inl (TypeError ''UserModel.login is not a function'') \<and>
   UserController_login UserModel_login \<lparr>login_email = e, login_password = p\<rparr> s
     \<noteq> Inl (BadRequestError ''Invalid credentials'')"
  by (simp add: UserController_login_def UserModel_login_def)

section \<open>Find by id, find by unique field\<close>

lemma find_Some_in_set: "find P xs = Some x \<Longrightarrow> x \<in> set xs \<and> P x"
  by (induction xs) (auto split: if_splits)

lemma pg_findUnique [simp]: "user_findUnique (pg df) = pg_user_findUnique"
  and pg_meal_findUnique [simp]: "meal_findUnique (pg df) = pg_meal_findUnique"
  by (simp_all add: pg_def)

lemma UserModel_findById_pg:
  "UserModel_findById (pg df) i s =
     (case find (\<lambda>u. user_id u = i) (users s) of
        None \<Rightarrow> Inl (NotFound (Some ''User not found'')) | Some u \<Rightarrow> Inr u)"
  by (simp add: UserModel_findById_def split: option.splits)

lemma MealModel_findById_pg:
  "MealModel_findById (pg df) i s =
     (case find (\<lambda>m. meal_id m = i) (meals s) of
        None \<Rightarrow> Inl (NotFound (Some ''Meal not found'')) | Some m \<Rightarrow> Inr m)"
  by (simp add: MealModel_findById_def pg_meal_findUnique_def split: option.splits)

text \<open>
  C5. On the store of the schema, findById of either model throws NotFound exactly when no
  row has the id, and otherwise returns the row with that id (its result type has no
  absent value); findByEmail and findByPhone return the absent value exactly when no row
  has the email or phone, and never throw. For any client: an absent result of the
  lookup makes findById throw NotFound and makes findByEmail and findByPhone return the
  absent value.
\<close>

theorem C5_find_by_id_and_by_unique_field:
  "(UserModel_findById (pg df) i s = Inl (NotFound (Some ''User not found''))
      \<longleftrightarrow> (\<forall>u \<in> set (users s). user_id u \<noteq> i)) \<and>
   ((\<exists>u \<in> set (users s). user_id u = i \<and> UserModel_findById (pg df) i s = Inr u)
      \<longleftrightarrow> (\<exists>u \<in> set (users s). user_id u = i)) \<and>
   (MealModel_findById (pg df) i s = Inl (NotFound (Some ''Meal not found''))
      \<longleftrightarrow> (\<forall>m \<in> set (meals s). meal_id m \<noteq> i)) \<and>
   ((\<exists>m \<in> set (meals s). meal_id m = i \<and> MealModel_findById (pg df) i s = Inr m)
      \<longleftrightarrow> (\<exists>m \<in> set (meals s). meal_id m = i)) \<and>
   (UserModel_findByEmail (pg df) e s = Inr None \<longleftrightarrow> (\<forall>u \<in> set (users s). email u \<noteq> e)) \<and>
   (UserModel_findByPhone (pg df) p s = Inr None \<longleftrightarrow> (\<forall>u \<in> set (users s). phone u \<noteq> p)) \<and>
   (\<forall>err. UserModel_findByEmail (pg df) e s \<noteq> Inl err \<and>
          UserModel_findByPhone (pg df) p s \<noteq> Inl err) \<and>
   (user_findUnique client (ById i) s = Inr None \<longrightarrow>
      UserModel_findById client i s = Inl (NotFound (Some ''User not found''))) \<and>
   (meal_findUnique client i s = Inr None \<longrightarrow>
      MealModel_findById client i s = Inl (NotFound (Some ''Meal not found''))) \<and>
   (user_findUnique client (ByEmail e) s = Inr None \<longrightarrow>
      UserModel_findByEmail client e s = Inr None) \<and>
   (user_findUnique client (ByPhone p) s = Inr None \<longrightarrow>
      UserModel_findByPhone client p s = Inr None)"
proof (intro conjI)
  show "UserModel_findById (pg df) i s = Inl (NotFound (Some ''User not found''))
      \<longleftrightarrow> (\<forall>u \<in> set (users s). user_id u \<noteq> i)"
    by (auto simp: UserModel_findById_pg find_None_iff dest: find_Some_in_set
        split: option.splits)
  show "(\<exists>u \<in> set (users s). user_id u = i \<and> UserModel_findById (pg df) i s = Inr u)
      \<longleftrightarrow> (\<exists>u \<in> set (users s). user_id u = i)"
    by (auto simp: UserModel_findById_pg find_None_iff dest: find_Some_in_set
        split: option.splits)
  show "MealModel_findById (pg df) i s = Inl (NotFound (Some ''Meal not found''))
      \<longleftrightarrow> (\<forall>m \<in> set (meals s). meal_id m \<noteq> i)"
    by (auto simp: MealModel_findById_pg find_None_iff dest: find_Some_in_set
        split: option.splits)
  show "(\<exists>m \<in> set (meals s). meal_id m = i \<and> MealModel_findById (pg df) i s = Inr m)
      \<longleftrightarrow> (\<exists>m \<in> set (meals s). meal_id m = i)"
    by (auto simp: MealModel_findById_pg find_None_iff dest: find_Some_in_set
        split: option.splits)
  show "UserModel_findByEmail (pg df) e s = Inr None \<longleftrightarrow> (\<forall>u \<in> set (users s). email u \<noteq> e)"
    by (auto simp: UserModel_findByEmail_def find_None_iff)
  show "UserModel_findByPhone (pg df) p s = Inr None \<longleftrightarrow> (\<forall>u \<in> set (users s). phone u \<noteq> p)"
    by (auto simp: UserModel_findByPhone_def find_None_iff)
  show "\<forall>err. UserModel_findByEmail (pg df) e s \<noteq> Inl err \<and>
          UserModel_findByPhone (pg df) p s \<noteq> Inl err"
    by (simp add: UserModel_findByEmail_def UserModel_findByPhone_def)
  show "user_findUnique client (ById i) s = Inr None \<longrightarrow>
      UserModel_findById client i s = Inl (NotFound (Some ''User not found''))"
    by (simp add: UserModel_findById_def)
  show "meal_findUnique client i s = Inr None \<longrightarrow>
      MealModel_findById client i s = Inl (NotFound (Some ''Meal not found''))"
    by (simp add: MealModel_findById_def)
  show "user_findUnique client (ByEmail e) s = Inr None \<longrightarrow>
      UserModel_findByEmail client e s = Inr None"
    by (simp add: UserModel_findByEmail_def)
  show "user_findUnique client (ByPhone p) s = Inr None \<longrightarrow>
      UserModel_findByPhone client p s = Inr None"
    by (simp add: UserModel_findByPhone_def)
qed

theorem C5_find_by_id_and_by_unique_field_witness:
  "UserModel_findById (pg freshDefaults) ''nonexistent-id'' mockDb
     = Inl (NotFound (Some ''User not found'')) \<and>
   UserModel_findById (pg freshDefaults) (user_id mockUser) mockDb = Inr mockUser \<and>
   MealModel_findById (pg freshDefaults) ''nonexistent-id'' mockDb
     = Inl (NotFound (Some ''Meal not found'')) \<and>
   MealModel_findById (pg freshDefaults) (meal_id mockMeal) mockDb = Inr mockMeal \<and>
   UserModel_findByEmail (pg freshDefaults) ''nonexistent@example.com'' mockDb = Inr None \<and>
   UserModel_findByPhone (pg freshDefaults) ''000'' mockDb = Inr None"
  using C5_find_by_id_and_by_unique_field
      [where df = freshDefaults and i = "''nonexistent-id''" and s = mockDb
         and e = "''nonexistent@example.com''" and p = "''000''"]
    C5_find_by_id_and_by_unique_field
      [where df = freshDefaults and i = "user_id mockUser" and s = mockDb]
    C5_find_by_id_and_by_unique_field
      [where df = freshDefaults and i = "meal_id mockMeal" and s = mockDb]
  by (simp add: mockDb_def mockUser_def mockMeal_def UserModel_findById_pg MealModel_findById_pg)

section \<open>Translation of store errors\<close>

lemma UserModel_catch_P2025:
  "code err = Some ''P2025'' \<Longrightarrow> UserModel_catch err = NotFound (Some ''User not found'')"
  by (simp add: UserModel_catch_def UserModel_handlePrismaError_def)

lemma UserModel_catch_P2002:
  "code err = Some ''P2002'' \<Longrightarrow> meta err = Some \<lparr>target = Some (f # fs)\<rparr> \<Longrightarrow> f \<noteq> [] \<Longrightarrow>
   UserModel_catch err = BadRequestError (f @ '' is already in use'')"
  by (simp add: UserModel_catch_def UserModel_handlePrismaError_def)

lemma UserModel_catch_P2002_Field:
  "code err = Some ''P2002'' \<Longrightarrow>
   meta err = None \<or> meta err = Some \<lparr>target = Some []\<rparr> \<or>
     (\<exists>fs. meta err = Some \<lparr>target = Some ([] # fs)\<rparr>) \<Longrightarrow>
   UserModel_catch err = BadRequestError ''Field is already in use''"
  by (auto simp: UserModel_catch_def UserModel_handlePrismaError_def)

lemma UserModel_catch_P2002_no_target:
  "code err = Some ''P2002'' \<Longrightarrow> meta err = Some \<lparr>target = None\<rparr> \<Longrightarrow>
   UserModel_catch err = TypeError ''Cannot read properties of undefined''"
  by (simp add: UserModel_catch_def UserModel_handlePrismaError_def)

lemma UserModel_catch_other:
  "code err \<noteq> Some ''P2025'' \<Longrightarrow> code err \<noteq> Some ''P2002'' \<Longrightarrow> UserModel_catch err = Raw err"
  by (simp add: UserModel_catch_def UserModel_handlePrismaError_def)

lemma MealModel_catch_P2025:
  "code err = Some ''P2025'' \<Longrightarrow> MealModel_catch err = NotFound (Some ''Meal not found'')"
  by (simp add: MealModel_catch_def MealModel_handlePrismaError_def)

lemma MealModel_catch_other:
  "code err \<noteq> Some ''P2025'' \<Longrightarrow> MealModel_catch err = Raw err"
  by (simp add: MealModel_catch_def MealModel_handlePrismaError_def)

text \<open>
  C6 (as amended). An error \<open>err\<close> that the client raises in create, update or delete comes
  out of the model as the catch block translates it. For a user: P2025 becomes NotFound
  'User not found'; P2002 with no \<open>meta\<close>, or with a list as \<open>meta.target\<close>, becomes a
  BadRequestError naming the first field of the list followed by ' is already in use'
  ('Field' when there is no \<open>meta\<close>, the list is empty or its first field is empty); an
  error with any other code is thrown on unchanged. For a meal: P2025 becomes NotFound
  'Meal not found', and every other error, P2002 included, is thrown on unchanged.
\<close>

theorem C6_store_errors_translated:
  "(user_create client (ud\<lparr>password := toHash pf (password ud)\<rparr>) s = Inl err \<longrightarrow>
      UserModel_create client pf ud s = Inl (UserModel_catch err)) \<and>
   (user_update client i
        (if truthy (upd_password d)
         then d\<lparr>upd_password := map_option (toHash pf) (upd_password d)\<rparr> else d) s = Inl err \<longrightarrow>
      UserModel_update client pf i d s = Inl (UserModel_catch err)) \<and>
   (user_delete client i s = Inl err \<longrightarrow>
      UserModel_delete client i s = Inl (UserModel_catch err)) \<and>
   (meal_create client md s = Inl err \<longrightarrow>
      MealModel_create client md s = Inl (MealModel_catch err)) \<and>
   (meal_update client i mu s = Inl err \<longrightarrow>
      MealModel_updateById client i mu s = Inl (MealModel_catch err)) \<and>
   (meal_delete client i s = Inl err \<longrightarrow>
      MealModel_deleteById client i s = Inl (MealModel_catch err)) \<and>
   (code err = Some ''P2025'' \<longrightarrow>
      UserModel_catch err = NotFound (Some ''User not found'') \<and>
      MealModel_catch err = NotFound (Some ''Meal not found'')) \<and>
   (code err = Some ''P2002'' \<and> meta err = Some \<lparr>target = Some (f # fs)\<rparr> \<and> f \<noteq> [] \<longrightarrow>
      UserModel_catch err = BadRequestError (f @ '' is already in use'')) \<and>
   (code err = Some ''P2002'' \<and>
    (meta err = None \<or> meta err = Some \<lparr>target = Some []\<rparr> \<or>
     (\<exists>gs. meta err = Some \<lparr>target = Some ([] # gs)\<rparr>)) \<longrightarrow>
      UserModel_catch err = BadRequestError ''Field is already in use'') \<and>
   (code err \<noteq> Some ''P2025'' \<and> code err \<noteq> Some ''P2002'' \<longrightarrow> UserModel_catch err = Raw err) \<and>
   (code err \<noteq> Some ''P2025'' \<longrightarrow> MealModel_catch err = Raw err)"
proof (intro conjI impI)
  assume "user_create client (ud\<lparr>password := toHash pf (password ud)\<rparr>) s = Inl err"
  then show "UserModel_create client pf ud s = Inl (UserModel_catch err)"
    by (simp add: UserModel_create_def)
next
  assume "user_update client i
        (if truthy (upd_password d)
         then d\<lparr>upd_password := map_option (toHash pf) (upd_password d)\<rparr> else d) s = Inl err"
  then show "UserModel_update client pf i d s = Inl (UserModel_catch err)"
    by (simp add: UserModel_update_def)
next
  assume "user_delete client i s = Inl err"
  then show "UserModel_delete client i s = Inl (UserModel_catch err)"
    by (simp add: UserModel_delete_def)
next
  assume "meal_create client md s = Inl err"
  then show "MealModel_create client md s = Inl (MealModel_catch err)"
    by (simp add: MealModel_create_def)
next
  assume "meal_update client i mu s = Inl err"
  then show "MealModel_updateById client i mu s = Inl (MealModel_catch err)"
    by (simp add: MealModel_updateById_def)
next
  assume "meal_delete client i s = Inl err"
  then show "MealModel_deleteById client i s = Inl (MealModel_catch err)"
    by (simp add: MealModel_deleteById_def)
next
  assume "code err = Some ''P2025''"
  then show "UserModel_catch err = NotFound (Some ''User not found'')"
    by (rule UserModel_catch_P2025)
next
  assume "code err = Some ''P2025''"
  then show "MealModel_catch err = NotFound (Some ''Meal not found'')"
    by (rule MealModel_catch_P2025)
next
  assume "code err = Some ''P2002'' \<and> meta err = Some \<lparr>target = Some (f # fs)\<rparr> \<and> f \<noteq> []"
  then show "UserModel_catch err = BadRequestError (f @ '' is already in use'')"
    using UserModel_catch_P2002 by blast
next
  assume "code err = Some ''P2002'' \<and>
    (meta err = None \<or> meta err = Some \<lparr>target = Some []\<rparr> \<or>
     (\<exists>gs. meta err = Some \<lparr>target = Some ([] # gs)\<rparr>))"
  then show "UserModel_catch err = BadRequestError ''Field is already in use''"
    using UserModel_catch_P2002_Field by blast
next
  assume "code err \<noteq> Some ''P2025'' \<and> code err \<noteq> Some ''P2002''"
  then show "UserModel_catch err = Raw err"
    using UserModel_catch_other by blast
next
  assume "code err \<noteq> Some ''P2025''"
  then show "MealModel_catch err = Raw err"
    by (rule MealModel_catch_other)
qed

text \<open>
  C6 as stated fails for meals: a uniqueness violation raised while creating a meal (the
  new id is already taken) leaves MealModel.create as the client's P2002 error, not as a
  BadRequestError.
\<close>

theorem C6_meal_unique_violation_not_translated:
  "MealModel_create (pg \<lparr>uuid = meal_id mockMeal, now = 1\<rparr>) mockCreateMealData mockDb
     = Inl (Raw \<lparr>code = Some ''P2002'', meta = Some \<lparr>target = Some [''id'']\<rparr>\<rparr>)"
  by (simp add: MealModel_create_def MealModel_catch_def MealModel_handlePrismaError_def
      pg_def pg_meal_create_def mockDb_def mockCreateMealData_def int4_def P2002_def Let_def)

lemma pg_ops [simp]:
  "user_create (pg df) = pg_user_create df"
  "user_update (pg df) = pg_user_update"
  "user_delete (pg df) = pg_user_delete"
  "meal_create (pg df) = pg_meal_create df"
  "meal_update (pg df) = pg_meal_update"
  "meal_delete (pg df) = pg_meal_delete"
  by (simp_all add: pg_def)

theorem C6_store_errors_translated_witness:
  "UserModel_create (pg freshDefaults) stub_platform mockCreateUserData mockDb
     = Inl (BadRequestError ''email is already in use'') \<and>
   UserModel_update (pg freshDefaults) stub_platform ''nonexistent-id'' emptyUpdate mockDb
     = Inl (NotFound (Some ''User not found'')) \<and>
   UserModel_delete (pg freshDefaults) ''nonexistent-id'' mockDb
     = Inl (NotFound (Some ''User not found'')) \<and>
   MealModel_create (pg freshDefaults) (mockCreateMealData\<lparr>planId := ''no-such-plan''\<rparr>) mockDb
     = Inl (Raw P2003) \<and>
   MealModel_updateById (pg freshDefaults) ''nonexistent-id''
       \<lparr>upd_meal_name = Some ''Updated Meal'', upd_calories = None, upd_carbs = None,
        upd_protein = None, upd_fat = None\<rparr> mockDb
     = Inl (NotFound (Some ''Meal not found'')) \<and>
   MealModel_deleteById (pg freshDefaults) ''nonexistent-id'' mockDb
     = Inl (NotFound (Some ''Meal not found'')) \<and>
   UserModel_catch \<lparr>code = Some ''P2002'', meta = None\<rparr> = BadRequestError ''Field is already in use'' \<and>
   UserModel_catch P2003 = Raw P2003"
proof -
  have dup: "user_create (pg freshDefaults)
      (mockCreateUserData\<lparr>password := toHash stub_platform (password mockCreateUserData)\<rparr>) mockDb
      = Inl (P2002 ''email'')"
    by (simp add: pg_user_create_def mockDb_def mockUser_def mockCreateUserData_def
        freshDefaults_def Let_def)
  have upd: "user_update (pg freshDefaults) ''nonexistent-id''
        (if truthy (upd_password emptyUpdate)
         then emptyUpdate\<lparr>upd_password := map_option (toHash stub_platform) (upd_password emptyUpdate)\<rparr>
         else emptyUpdate) mockDb = Inl P2025"
    by (simp add: pg_user_update_def mockDb_def mockUser_def emptyUpdate_def)
  have del: "user_delete (pg freshDefaults) ''nonexistent-id'' mockDb = Inl P2025"
    by (simp add: pg_user_delete_def mockDb_def mockUser_def)
  have mcr: "meal_create (pg freshDefaults) (mockCreateMealData\<lparr>planId := ''no-such-plan''\<rparr>) mockDb
      = Inl P2003"
    by (simp add: pg_meal_create_def mockDb_def mockMeal_def mockCreateMealData_def
        freshDefaults_def int4_def Let_def)
  have mup: "meal_update (pg freshDefaults) ''nonexistent-id''
       \<lparr>upd_meal_name = Some ''Updated Meal'', upd_calories = None, upd_carbs = None,
        upd_protein = None, upd_fat = None\<rparr> mockDb = Inl P2025"
    by (simp add: pg_meal_update_def mockDb_def mockMeal_def)
  have mdl: "meal_delete (pg freshDefaults) ''nonexistent-id'' mockDb = Inl P2025"
    by (simp add: pg_meal_delete_def mockDb_def mockMeal_def)
  show ?thesis
    using C6_store_errors_translated [where client = "pg freshDefaults" and pf = stub_platform and ud = mockCreateUserData
          and s = mockDb and err = "P2002 ''email''" and f = "''email''" and fs = "[]"]
      C6_store_errors_translated [where client = "pg freshDefaults" and pf = stub_platform and i = "''nonexistent-id''"
          and d = emptyUpdate and s = mockDb and err = P2025]
      C6_store_errors_translated [where client = "pg freshDefaults" and s = mockDb and err = P2003
          and md = "mockCreateMealData\<lparr>planId := ''no-such-plan''\<rparr>"]
      C6_store_errors_translated [where err = "\<lparr>code = Some ''P2002'', meta = None\<rparr>"]
      dup upd del mcr mup mdl
    by (simp add: P2002_def P2025_def P2003_def)
qed

section \<open>Updating a user\<close>

lemma pg_user_update_missing:
  "\<forall>v \<in> set (users s). user_id v \<noteq> i \<Longrightarrow> pg_user_update i d s = Inl P2025"
  by (simp add: pg_user_update_def find_None_iff [THEN iffD2])

lemma pg_user_update_row:
  assumes "pg_user_update i d s = Inr (u, s')"
  shows "\<exists>u0 \<in> set (users s). user_id u0 = i \<and> u = set_user d u0 \<and> u \<in> set (users s')"
proof -
  from assms obtain u0 where f: "find (\<lambda>u. user_id u = i) (users s) = Some u0"
    by (auto simp: pg_user_update_def split: option.splits)
  then have u0: "u0 \<in> set (users s)" "user_id u0 = i"
    using find_Some_in_set by fastforce+
  from assms f have u: "u = set_user d u0"
    and s': "users s' = map (\<lambda>v. if user_id v = i then u else v) (users s)"
    by (auto simp: pg_user_update_def Let_def split: if_splits)
  from u0 s' have "u \<in> set (users s')" by force
  with u0 u show ?thesis by blast
qed

lemma UserModel_update_pg:
  "UserModel_update (pg df) pf i d s = Inr (u, s') \<Longrightarrow>
   pg_user_update i
     (if truthy (upd_password d)
      then d\<lparr>upd_password := map_option (toHash pf) (upd_password d)\<rparr> else d) s = Inr (u, s')"
  by (auto simp: UserModel_update_def Let_def split: sum.splits if_splits)

lemma user_id_set_user [simp]: "user_id (set_user d u) = user_id u"
  by (simp add: set_user_def)

text \<open>
  C7 (as amended). On the store of the schema, an update whose payload has a non-empty
  password persists, in the row with the given id, the digest that toHash makes of it.
  When the derivation returns its 64 bytes the digest is 145 characters long, so it is
  not the plaintext unless the plaintext is itself 145 characters long. The email, name
  and phone the payload supplies are in the row as given, and when no row has the id the
  update fails with NotFound 'User not found'.
\<close>

theorem C7_update_rehashes_nonempty_password:
  "(upd_password d = Some p \<and> p \<noteq> [] \<and> UserModel_update (pg df) pf i d s = Inr (u, s') \<longrightarrow>
      password u = toHash pf p \<and> u \<in> set (users s') \<and> user_id u = i) \<and>
   ((\<forall>pw st. length (scrypt pf pw st 64) = 64) \<longrightarrow>
      length (toHash pf p) = 145 \<and> (length p \<noteq> 145 \<longrightarrow> toHash pf p \<noteq> p)) \<and>
   (UserModel_update (pg df) pf i d s = Inr (u, s') \<longrightarrow>
      (\<forall>v. upd_email d = Some v \<longrightarrow> email u = v) \<and>
      (\<forall>v. upd_name d = Some v \<longrightarrow> name u = v) \<and>
      (\<forall>v. upd_phone d = Some v \<longrightarrow> phone u = v)) \<and>
   ((\<forall>v \<in> set (users s). user_id v \<noteq> i) \<longrightarrow>
      UserModel_update (pg df) pf i d s = Inl (NotFound (Some ''User not found'')))"
proof -
  have digest: "password u = toHash pf p \<and> u \<in> set (users s') \<and> user_id u = i"
    if a: "upd_password d = Some p \<and> p \<noteq> [] \<and> UserModel_update (pg df) pf i d s = Inr (u, s')"
  proof -
    from a have "pg_user_update i (d\<lparr>upd_password := Some (toHash pf p)\<rparr>) s = Inr (u, s')"
      using UserModel_update_pg [of df pf i d s u s'] by simp
    from pg_user_update_row [OF this] show ?thesis
      by (auto simp: set_user_def)
  qed
  have others: "(\<forall>v. upd_email d = Some v \<longrightarrow> email u = v) \<and>
      (\<forall>v. upd_name d = Some v \<longrightarrow> name u = v) \<and>
      (\<forall>v. upd_phone d = Some v \<longrightarrow> phone u = v)"
    if "UserModel_update (pg df) pf i d s = Inr (u, s')"
    using pg_user_update_row [OF UserModel_update_pg [OF that]]
    by (auto simp: set_user_def)
  have missing: "UserModel_update (pg df) pf i d s = Inl (NotFound (Some ''User not found''))"
    if "\<forall>v \<in> set (users s). user_id v \<noteq> i"
    using that
    by (simp add: UserModel_update_def pg_user_update_missing UserModel_catch_P2025 P2025_def)
  have differs: "length (toHash pf p) = 145 \<and> (length p \<noteq> 145 \<longrightarrow> toHash pf p \<noteq> p)"
    if "\<forall>pw st. length (scrypt pf pw st 64) = 64"
  proof -
    from that have "length (toHash pf p) = 145"
      by (simp add: toHash_def Let_def length_toHex randomBytes_def)
    then show ?thesis by auto
  qed
  from digest differs others missing show ?thesis by blast
qed

text \<open>
  C7 as stated fails: a payload whose password field is present and empty is stored as
  it is, and the empty string is not a digest.
\<close>

theorem C7_empty_password_not_hashed:
  "\<forall>pf. UserModel_update (pg freshDefaults) pf (user_id mockUser)
          (emptyUpdate\<lparr>upd_password := Some ''''\<rparr>) mockDb
        = Inr (mockUser\<lparr>password := ''''\<rparr>, mockDb\<lparr>users := [mockUser\<lparr>password := ''''\<rparr>]\<rparr>) \<and>
        toHash pf '''' \<noteq> ''''"
  by (simp add: UserModel_update_def pg_user_update_def set_user_def mockDb_def emptyUpdate_def
      toHash_def Let_def)

theorem C7_update_rehashes_nonempty_password_witness:
  "UserModel_update (pg freshDefaults) stub_platform (user_id mockUser)
       (emptyUpdate\<lparr>upd_password := Some ''newPassword'', upd_name := Some ''Updated Name''\<rparr>) mockDb
     = Inr (mockUser\<lparr>name := ''Updated Name'', password := toHash stub_platform ''newPassword''\<rparr>,
            mockDb\<lparr>users := [mockUser\<lparr>name := ''Updated Name'',
                                       password := toHash stub_platform ''newPassword''\<rparr>]\<rparr>) \<and>
   length (toHash stub_platform ''newPassword'') = 145 \<and>
   toHash stub_platform ''newPassword'' \<noteq> ''newPassword'' \<and>
   UserModel_update (pg freshDefaults) stub_platform ''nonexistent-id''
       (emptyUpdate\<lparr>upd_password := Some ''newPassword''\<rparr>) mockDb
     = Inl (NotFound (Some ''User not found''))"
proof -
  have len: "\<forall>pw st. length (scrypt stub_platform pw st 64) = 64"
    by (simp add: stub_platform_def)
  have run: "UserModel_update (pg freshDefaults) stub_platform (user_id mockUser)
       (emptyUpdate\<lparr>upd_password := Some ''newPassword'', upd_name := Some ''Updated Name''\<rparr>) mockDb
     = Inr (mockUser\<lparr>name := ''Updated Name'', password := toHash stub_platform ''newPassword''\<rparr>,
            mockDb\<lparr>users := [mockUser\<lparr>name := ''Updated Name'',
                                       password := toHash stub_platform ''newPassword''\<rparr>]\<rparr>)"
    by (simp add: UserModel_update_def pg_user_update_def set_user_def mockDb_def emptyUpdate_def
        Let_def)
  have missing: "\<forall>v \<in> set (users mockDb). user_id v \<noteq> ''nonexistent-id''"
    by (simp add: mockDb_def mockUser_def)
  show ?thesis
    using C7_update_rehashes_nonempty_password
        [where df = freshDefaults and pf = stub_platform and i = "''nonexistent-id''"
           and d = "emptyUpdate\<lparr>upd_password := Some ''newPassword''\<rparr>" and s = mockDb]
      C7_update_rehashes_nonempty_password
        [where df = freshDefaults and pf = stub_platform and i = "user_id mockUser"
           and d = "emptyUpdate\<lparr>upd_password := Some ''newPassword'',
                                  upd_name := Some ''Updated Name''\<rparr>"
           and s = mockDb and p = "''newPassword''"
           and u = "mockUser\<lparr>name := ''Updated Name'',
                             password := toHash stub_platform ''newPassword''\<rparr>"]
      run missing len
    by simp
qed

section \<open>Registration\<close>

text \<open>
  C8. Registration fails with 'Email already in use' when a row has the payload's email.
  When none has, a row has the payload's phone and the new id is free, the pre-check by
  email finds nothing, the insert is what fails (P2002 on phone), and registration fails
  with the translated BadRequestError 'phone is already in use'.
\<close>

theorem C8_register_checks_email_only:
  "((\<exists>u \<in> set (users s). email u = email b) \<longrightarrow>
      UserController_register (pg df) pf b s = Inl (BadRequestError ''Email already in use'')) \<and>
   ((\<forall>u \<in> set (users s). email u \<noteq> email b) \<and> (\<exists>u \<in> set (users s). phone u = phone b) \<and>
    (\<forall>u \<in> set (users s). user_id u \<noteq> uuid df) \<longrightarrow>
      UserModel_findByEmail (pg df) (email b) s = Inr None \<and>
      user_create (pg df)
        \<lparr>email = email b, name = name b, phone = phone b, password = toHash pf (password b)\<rparr> s
        = Inl (P2002 ''phone'') \<and>
      UserController_register (pg df) pf b s = Inl (BadRequestError ''phone is already in use''))"
proof (intro conjI impI)
  assume "\<exists>u \<in> set (users s). email u = email b"
  then obtain u where "find (\<lambda>u. email u = email b) (users s) = Some u"
    using find_None_iff [of "\<lambda>u. email u = email b" "users s"] by fastforce
  then show "UserController_register (pg df) pf b s = Inl (BadRequestError ''Email already in use'')"
    by (simp add: UserController_register_def UserModel_findByEmail_def)
next
  assume a: "(\<forall>u \<in> set (users s). email u \<noteq> email b) \<and> (\<exists>u \<in> set (users s). phone u = phone b) \<and>
    (\<forall>u \<in> set (users s). user_id u \<noteq> uuid df)"
  then have pre: "find (\<lambda>u. email u = email b) (users s) = None"
    by (simp add: find_None_iff)
  then show f: "UserModel_findByEmail (pg df) (email b) s = Inr None"
    by (simp add: UserModel_findByEmail_def)
  from a show c: "user_create (pg df)
        \<lparr>email = email b, name = name b, phone = phone b, password = toHash pf (password b)\<rparr> s
        = Inl (P2002 ''phone'')"
    by (simp add: pg_user_create_def Let_def)
  have "UserModel_catch (P2002 ''phone'') = BadRequestError ''phone is already in use''"
    by (simp add: UserModel_catch_def UserModel_handlePrismaError_def P2002_def)
  with f c show "UserController_register (pg df) pf b s
      = Inl (BadRequestError ''phone is already in use'')"
    by (simp add: UserController_register_def UserModel_create_def Let_def)
qed

theorem C8_register_checks_email_only_witness:
  "UserController_register (pg freshDefaults) stub_platform mockCreateUserData mockDb
     = Inl (BadRequestError ''Email already in use'') \<and>
   UserModel_findByEmail (pg freshDefaults) ''user2@example.com'' mockDb = Inr None \<and>
   UserController_register (pg freshDefaults) stub_platform
       (mockCreateUserData\<lparr>email := ''user2@example.com''\<rparr>) mockDb
     = Inl (BadRequestError ''phone is already in use'')"
proof -
  have dup_email: "\<exists>u \<in> set (users mockDb). email u = email mockCreateUserData"
    by (simp add: mockDb_def mockUser_def mockCreateUserData_def)
  have new_email: "\<forall>u \<in> set (users mockDb). email u \<noteq> ''user2@example.com''"
    by (simp add: mockDb_def mockUser_def)
  have dup_phone: "\<exists>u \<in> set (users mockDb). phone u = phone mockCreateUserData"
    by (simp add: mockDb_def mockUser_def mockCreateUserData_def)
  have fresh: "\<forall>u \<in> set (users mockDb). user_id u \<noteq> uuid freshDefaults"
    by (simp add: mockDb_def mockUser_def freshDefaults_def)
  show ?thesis
    using C8_register_checks_email_only
        [where df = freshDefaults and pf = stub_platform and b = mockCreateUserData and s = mockDb]
      C8_register_checks_email_only
        [where df = freshDefaults and pf = stub_platform
           and b = "mockCreateUserData\<lparr>email := ''user2@example.com''\<rparr>" and s = mockDb]
      dup_email new_email dup_phone fresh
    by simp
qed

section \<open>An empty password in an update\<close>

text \<open>
  C9. An update whose payload has the empty string as password hands the payload to the
  client as it is, never calling the hasher; on the store of the schema the row it
  returns and persists has the empty string as its password.
\<close>

theorem C9_empty_password_stored_verbatim:
  "upd_password d = Some '''' \<longrightarrow>
     UserModel_update client pf i d s =
       (case user_update client i d s of
          Inl err \<Rightarrow> Inl (UserModel_catch err) | Inr r \<Rightarrow> Inr r) \<and>
     (\<forall>u s'. UserModel_update (pg df) pf i d s = Inr (u, s') \<longrightarrow>
        password u = '''' \<and> u \<in> set (users s') \<and> user_id u = i)"
proof (intro impI conjI allI)
  assume e: "upd_password d = Some ''''"
  then show "UserModel_update client pf i d s =
       (case user_update client i d s of
          Inl err \<Rightarrow> Inl (UserModel_catch err) | Inr r \<Rightarrow> Inr r)"
    by (simp add: UserModel_update_def)
  fix u s'
  assume "UserModel_update (pg df) pf i d s = Inr (u, s')"
  with e have "pg_user_update i d s = Inr (u, s')"
    using UserModel_update_pg [of df pf i d s u s'] by simp
  from pg_user_update_row [OF this] e
  show "password u = ''''" and "u \<in> set (users s')" and "user_id u = i"
    by (auto simp: set_user_def)
qed

theorem C9_empty_password_stored_verbatim_witness:
  "UserModel_update (pg freshDefaults) stub_platform (user_id mockUser)
          (emptyUpdate\<lparr>upd_password := Some ''''\<rparr>) mockDb
        = Inr (mockUser\<lparr>password := ''''\<rparr>, mockDb\<lparr>users := [mockUser\<lparr>password := ''''\<rparr>]\<rparr>)"
  using C9_empty_password_stored_verbatim
      [where d = "emptyUpdate\<lparr>upd_password := Some ''''\<rparr>" and client = "pg freshDefaults"
         and pf = stub_platform and i = "user_id mockUser" and s = mockDb]
  by (simp add: pg_user_update_def set_user_def mockDb_def emptyUpdate_def Let_def)

end
